theory Spec2Isabelle
  imports Main "HOL-Library.Word"
begin

section \<open>Standard output\<close>

text \<open>
  \<open>std::cout\<close> is the only state the printer touches besides the caller's counter.
  It is modelled as the sequence of events it has received so far: a character written
  with \<open>operator<<\<close>, or a flush. Every printing function takes the stream and
  returns it extended.
\<close>

datatype event = Ch char | Flush

type_synonym ostream = "event list"

definition stream_put :: "ostream \<Rightarrow> string \<Rightarrow> ostream" where
  "stream_put cout s = cout @ map Ch s"

definition stream_flush :: "ostream \<Rightarrow> ostream" where
  "stream_flush cout = cout @ [Flush]"

text \<open>\<open>std::endl\<close> writes a newline and flushes.\<close>

definition stream_endl :: "ostream \<Rightarrow> ostream" where
  "stream_endl cout = stream_flush (stream_put cout [CHR 0x0A])"

section \<open>Colours\<close>

text \<open>
  \<open>enum class PrintColor\<close> has the underlying type \<open>int\<close>; its seven enumerators are
  the values 0 to 6, and every other value of the underlying type is a value of the
  enumeration type too (reachable by \<open>static_cast\<close>), which is what the \<open>default\<close> branch
  of \<open>GetColorCode\<close> is for.
\<close>

datatype PrintColor = PrintColor (underlying: "32 word")

definition RED :: PrintColor where "RED = PrintColor 0"
definition GREEN :: PrintColor where "GREEN = PrintColor 1"
definition YELLOW :: PrintColor where "YELLOW = PrintColor 2"
definition BLUE :: PrintColor where "BLUE = PrintColor 3"
definition MAGENTA :: PrintColor where "MAGENTA = PrintColor 4"
definition CYAN :: PrintColor where "CYAN = PrintColor 5"
definition WHITE :: PrintColor where "WHITE = PrintColor 6"

lemmas PrintColor_defs =
  RED_def GREEN_def YELLOW_def BLUE_def MAGENTA_def CYAN_def WHITE_def

definition GetColorCode :: "PrintColor \<Rightarrow> string" where
  "GetColorCode color =
     (if color = RED then CHR 0x1B # ''[31m''
      else if color = GREEN then CHR 0x1B # ''[32m''
      else if color = YELLOW then CHR 0x1B # ''[33m''
      else if color = BLUE then CHR 0x1B # ''[34m''
      else if color = MAGENTA then CHR 0x1B # ''[35m''
      else if color = CYAN then CHR 0x1B # ''[36m''
      else if color = WHITE then CHR 0x1B # ''[37m''
      else CHR 0x1B # ''[0m'')"

section \<open>Coloured line emission\<close>

text \<open>
  A \<open>const char*\<close> argument is represented by the characters it points to, up to and
  excluding the terminating NUL; \<open>std::string msg_str(message)\<close> copies exactly those.
  \<open>std::string::find\<close> returns the first index of the character, \<open>npos\<close> being \<open>None\<close>.
\<close>

fun string_find :: "string \<Rightarrow> char \<Rightarrow> nat option" where
  "string_find [] c = None"
| "string_find (x # xs) c = (if x = c then Some 0 else map_option Suc (string_find xs c))"

definition PrintColoredMessage_cstr ::
  "PrintColor \<Rightarrow> string \<Rightarrow> string \<Rightarrow> ostream \<Rightarrow> ostream" where
  "PrintColoredMessage_cstr color type message cout =
     (let color_code = GetColorCode color;
          reset_code = CHR 0x1B # ''[0m'';
          msg_str = message;
          hasFormatSpecifier = (string_find msg_str CHR ''%'' \<noteq> None)
      in if \<not> hasFormatSpecifier then
           stream_endl (stream_put (stream_put (stream_put (stream_put (stream_put
             (stream_put cout color_code) ''['') type) ''] '') msg_str) reset_code)
         else
           stream_endl (stream_put (stream_put (stream_put (stream_put (stream_put
             (stream_put cout color_code) ''['') type) ''] '') msg_str) reset_code))"

definition PrintColoredMessage_string ::
  "PrintColor \<Rightarrow> string \<Rightarrow> string \<Rightarrow> ostream \<Rightarrow> ostream" where
  "PrintColoredMessage_string color type message cout =
     (let color_code = GetColorCode color;
          reset_code = CHR 0x1B # ''[0m'';
          hasFormatSpecifier = (string_find message CHR ''%'' \<noteq> None)
      in if \<not> hasFormatSpecifier then
           stream_endl (stream_put (stream_put (stream_put (stream_put (stream_put
             (stream_put cout color_code) ''['') type) ''] '') message) reset_code)
         else
           stream_endl (stream_put (stream_put (stream_put (stream_put (stream_put
             (stream_put cout color_code) ''['') type) ''] '') message) reset_code))"

definition PrintColoredMessage_bool ::
  "PrintColor \<Rightarrow> string \<Rightarrow> bool \<Rightarrow> ostream \<Rightarrow> ostream" where
  "PrintColoredMessage_bool color type val cout =
     (let color_code = GetColorCode color;
          reset_code = CHR 0x1B # ''[0m''
      in stream_endl (stream_put (stream_put (stream_put (stream_put (stream_put
           (stream_put cout color_code) ''['') type) ''] '')
           (if val then ''true'' else ''false'')) reset_code))"

section \<open>Formatted coloured line emission\<close>

text \<open>
  The variadic arguments \<open>first, args...\<close> are a list. Their types are the caller's, so the
  functions are polymorphic in the element type; what lies outside the repository is a
  parameter: \<open>render\<close> for \<open>std::stringstream ss; ss << first; ss.str()\<close>, and
  \<open>vsnprintf\<close> for the C library function of that name.
\<close>

subsection \<open>The private helper \<open>FormatString\<close>\<close>

text \<open>
  The scanning loop of \<open>FormatString\<close> starts behind a percent sign and stops at a
  conversion type character (found), at a character that is neither such a character
  nor a flag, digit or dot (not found), or at the end of the string (not found). It
  returns \<open>found_specifier\<close> and \<open>end_pos\<close>.
\<close>

definition is_type_char :: "char \<Rightarrow> bool" where
  "is_type_char c \<longleftrightarrow>
     c = CHR ''d'' \<or> c = CHR ''i'' \<or> c = CHR ''u'' \<or> c = CHR ''o'' \<or> c = CHR ''x'' \<or> c = CHR ''X'' \<or>
     c = CHR ''f'' \<or> c = CHR ''F'' \<or> c = CHR ''e'' \<or> c = CHR ''E'' \<or> c = CHR ''g'' \<or> c = CHR ''G'' \<or>
     c = CHR ''a'' \<or> c = CHR ''A'' \<or> c = CHR ''c'' \<or> c = CHR ''s'' \<or> c = CHR ''p'' \<or> c = CHR ''n''"

definition is_flag_char :: "char \<Rightarrow> bool" where
  "is_flag_char c \<longleftrightarrow>
     c = CHR ''-'' \<or> c = CHR ''+'' \<or> c = CHR '' '' \<or> c = CHR ''#'' \<or> c = CHR ''0'' \<or>
     ((of_char c :: nat) \<ge> of_char CHR ''0'' \<and> (of_char c :: nat) \<le> of_char CHR ''9'') \<or> c = CHR ''.''"

function scan_specifier :: "string \<Rightarrow> nat \<Rightarrow> bool \<times> nat" where
  "scan_specifier result end_pos =
     (if end_pos < length result then
        (let c = result ! end_pos in
         if is_type_char c then (True, end_pos + 1)
         else if is_flag_char c then scan_specifier result (end_pos + 1)
         else (False, end_pos))
      else (False, end_pos))"
  by pat_completeness auto
termination
  by (relation "measure (\<lambda>(result, end_pos). length result - end_pos)") auto

declare scan_specifier.simps [simp del]

text \<open>
  \<open>std::string::replace(pos, len, str)\<close> for \<open>pos\<close> within the string, which is the
  case at both calls: \<open>pos\<close> is an index returned by \<open>find\<close>.
\<close>

definition string_replace :: "string \<Rightarrow> nat \<Rightarrow> nat \<Rightarrow> string \<Rightarrow> string" where
  "string_replace s pos len str = take pos s @ str @ drop (pos + len) s"

text \<open>
  The overload without arguments returns the format; the template substitutes one
  argument and calls \<open>FormatString(result, args...)\<close>.
\<close>

fun FormatString :: "('a \<Rightarrow> string) \<Rightarrow> string \<Rightarrow> 'a list \<Rightarrow> string" where
  "FormatString render format [] = format"
| "FormatString render format (first # args) =
     (let result = format in
      case string_find result CHR ''%'' of
        None \<Rightarrow> FormatString render result args
      | Some pos \<Rightarrow>
          (let (found_specifier, end_pos) = scan_specifier result (pos + 1);
               replacement = render first;
               result = (if found_specifier
                         then string_replace result pos (end_pos - pos) replacement
                         else string_replace result pos 1 replacement)
           in FormatString render result args))"

subsection \<open>\<open>FormatPrintf\<close> and the emission\<close>

text \<open>
  \<open>vsnprintf n format args\<close> stands for \<open>vsnprintf(buf, n, format, args)\<close>: it gives the
  return value and the bytes stored in the buffer, none when \<open>n\<close> is 0 (the first call,
  with \<open>nullptr\<close>). \<open>buffer_store\<close> puts the stored bytes at the start of the string's
  buffer. The return value is an \<open>int\<close>; \<open>size + 1\<close> does not overflow below \<open>INT_MAX\<close>.
\<close>

definition buffer_store :: "string \<Rightarrow> string \<Rightarrow> string" where
  "buffer_store buf bytes = take (length buf) bytes @ drop (length bytes) buf"

definition FormatPrintf ::
  "(nat \<Rightarrow> string \<Rightarrow> 'a list \<Rightarrow> int \<times> string) \<Rightarrow> string \<Rightarrow> 'a list \<Rightarrow> string" where
  "FormatPrintf vsnprintf format args =
     (let size = fst (vsnprintf 0 format args) in
      if size < 0 then []
      else
        (let result = replicate (nat (size + 1)) (CHR 0x00);
             result = buffer_store result (snd (vsnprintf (nat (size + 1)) format args));
             result = take (nat size) result
         in result))"

text \<open>The template overload of \<open>PrintColoredMessage\<close>, with at least one argument.\<close>

definition PrintColoredMessage_format ::
  "(nat \<Rightarrow> string \<Rightarrow> 'a list \<Rightarrow> int \<times> string) \<Rightarrow>
     PrintColor \<Rightarrow> string \<Rightarrow> string \<Rightarrow> 'a \<Rightarrow> 'a list \<Rightarrow> ostream \<Rightarrow> ostream" where
  "PrintColoredMessage_format vsnprintf color type format first args cout =
     (let color_code = GetColorCode color;
          reset_code = CHR 0x1B # ''[0m'';
          message_str = FormatPrintf vsnprintf format (first # args)
      in stream_endl (stream_put (stream_put (stream_put (stream_put (stream_put
           (stream_put cout color_code) ''['') type) ''] '') message_str) reset_code))"

subsection \<open>A concrete renderer and a fragment of \<open>printf\<close>\<close>

text \<open>
  For evaluation at concrete inputs: arguments that are an \<open>int\<close>, a string or a
  character, and their rendering by \<open>operator<<\<close> (decimal digits with a minus sign for
  an \<open>int\<close>).
\<close>

datatype arg = ArgInt int | ArgStr string | ArgChar char

fun dec_nat :: "nat \<Rightarrow> string" where
  "dec_nat n = (if n < 10 then [''0123456789'' ! n]
                else dec_nat (n div 10) @ [''0123456789'' ! (n mod 10)])"

declare dec_nat.simps [simp del]

definition dec_int :: "int \<Rightarrow> string" where
  "dec_int i = (if i < 0 then CHR ''-'' # dec_nat (nat (- i)) else dec_nat (nat i))"

fun stream_render :: "arg \<Rightarrow> string" where
  "stream_render (ArgInt i) = dec_int i"
| "stream_render (ArgStr s) = s"
| "stream_render (ArgChar c) = [c]"

text \<open>
  A fragment of the C library's formatting, after the C standard: ordinary characters are
  copied, \<open>%%\<close> writes one percent sign and consumes no argument, \<open>%d\<close> writes an \<open>int\<close>
  argument in decimal, \<open>%s\<close> a string argument, and arguments left over are ignored. A
  format ending inside a conversion specification is reported as a failure, as glibc
  does (return value \<open>-1\<close>). Everything else lies outside the fragment and is given the
  same value \<open>None\<close>; no theorem evaluates the fragment there.
\<close>

fun printf_frag :: "string \<Rightarrow> arg list \<Rightarrow> string option" where
  "printf_frag [] args = Some []"
| "printf_frag [c] args = (if c = CHR ''%'' then None else Some [c])"
| "printf_frag (c # d # fmt) args =
     (if c \<noteq> CHR ''%'' then map_option ((#) c) (printf_frag (d # fmt) args)
      else if d = CHR ''%'' then map_option ((#) CHR ''%'') (printf_frag fmt args)
      else if d = CHR ''d'' then
        (case args of
           ArgInt i # args' \<Rightarrow> map_option ((@) (dec_int i)) (printf_frag fmt args')
         | _ \<Rightarrow> None)
      else if d = CHR ''s'' then
        (case args of
           ArgStr s # args' \<Rightarrow> map_option ((@) s) (printf_frag fmt args')
         | _ \<Rightarrow> None)
      else None)"

definition vsnprintf_frag :: "nat \<Rightarrow> string \<Rightarrow> arg list \<Rightarrow> int \<times> string" where
  "vsnprintf_frag n format args =
     (case printf_frag format args of
        None \<Rightarrow> (- 1, [])
      | Some s \<Rightarrow> (int (length s), if n = 0 then [] else take (n - 1) s @ [CHR 0x00]))"

section \<open>The silent status indicator\<close>

text \<open>
  The counter is a C++ \<open>int\<close>: a 32-bit word read in two's complement. The increment at
  \<open>INT_MAX\<close> is undefined in C++; the word wraps here, as the usual targets do.
  The loop \<open>for (int i = 0; i < countRef; i++)\<close> is the recursion \<open>dots_loop\<close>.
\<close>

function dots_loop :: "32 word \<Rightarrow> 32 word \<Rightarrow> ostream \<Rightarrow> ostream" where
  "dots_loop i countRef cout =
     (if i <s countRef then dots_loop (i + 1) countRef (stream_put cout ''.'') else cout)"
  by pat_completeness auto

lemma sint_succ:
  fixes i :: "32 word"
  assumes "sint i < 2147483647"
  shows "sint (i + 1) = sint i + 1"
proof -
  have lo: "- 2147483648 \<le> sint i"
    using sint_greater_eq [of i] by simp
  have "sint (i + 1) = signed_take_bit 31 (sint i + 1)"
    by (simp add: sint_word_ariths)
  also have "\<dots> = sint i + 1"
    using lo assms by (simp add: signed_take_bit_int_eq_self)
  finally show ?thesis .
qed

lemma sless_succ:
  fixes i n :: "32 word"
  assumes "i <s n"
  shows "sint (i + 1) = sint i + 1"
proof -
  have "sint n < 2147483648"
    using sint_less [of n] by simp
  moreover have "sint i < sint n"
    using assms by (simp add: word_sless_alt)
  ultimately show ?thesis
    by (intro sint_succ) linarith
qed

termination dots_loop
proof (relation "measure (\<lambda>(i, countRef, cout). nat (sint countRef - sint i))")
  show "wf (measure (\<lambda>(i, countRef, cout). nat (sint countRef - sint i)))"
    by simp
next
  fix i countRef :: "32 word" and cout :: ostream
  assume "i <s countRef"
  then show "((i + 1, countRef, stream_put cout ''.''), (i, countRef, cout))
      \<in> measure (\<lambda>(i, countRef, cout). nat (sint countRef - sint i))"
    using sless_succ [of i countRef] by (simp add: word_sless_alt)
qed

declare dots_loop.simps [simp del]

definition PrintSilentStatusIndicator ::
  "PrintColor \<Rightarrow> bool \<Rightarrow> 32 word \<times> ostream \<Rightarrow> 32 word \<times> ostream" where
  "PrintSilentStatusIndicator color isSilent st =
     (case st of (countRef, cout) \<Rightarrow>
        if isSilent then
          (let countRef = countRef + 1;
               (countRef, cout) =
                  (if 100 <s countRef
                   then (1, stream_flush (stream_put cout
                           (CHR 0x0D # ''                      '' @ [CHR 0x0D])))
                   else (countRef, cout));
               color_code = GetColorCode color;
               cout = stream_put (stream_put (stream_put cout [CHR 0x0D]) color_code) ''[INFO] '';
               cout = dots_loop 0 countRef cout;
               cout = stream_flush (stream_put cout (CHR 0x1B # ''[0m''))
           in (countRef, cout))
        else (countRef, cout))"

text \<open>A run of calls on one counter cell, one flag per call.\<close>

fun indicator_calls :: "PrintColor \<Rightarrow> bool list \<Rightarrow> 32 word \<times> ostream \<Rightarrow> 32 word \<times> ostream" where
  "indicator_calls color [] st = st"
| "indicator_calls color (b # bs) st =
     indicator_calls color bs (PrintSilentStatusIndicator color b st)"

text \<open>
  One frame of the indicator as the specification words it: a carriage return, the colour
  code, the prefix \<open>[INFO] \<close> with its space, \<open>n\<close> dots, the reset code, no newline, and
  a flush. The theorems below compare what the code writes with it.
\<close>

definition indicator_line :: "PrintColor \<Rightarrow> nat \<Rightarrow> event list" where
  "indicator_line color n =
     Ch (CHR 0x0D) # map Ch (GetColorCode color @ ''[INFO] '' @ replicate n CHR ''.'' @ CHR 0x1B # ''[0m'')
       @ [Flush]"

section \<open>Properties of the indicator\<close>

subsection \<open>The dot loop and a single call\<close>

lemma dots_loop_eq:
  "dots_loop i countRef cout = cout @ replicate (nat (sint countRef - sint i)) (Ch CHR ''.'')"
proof (induction i countRef cout rule: dots_loop.induct)
  case (1 i countRef cout)
  show ?case
  proof (cases "i <s countRef")
    case True
    then have lt: "sint i < sint countRef"
      by (simp add: word_sless_alt)
    have step: "sint (i + 1) = sint i + 1"
      using True by (rule sless_succ)
    have "nat (sint countRef - sint i) = Suc (nat (sint countRef - sint (i + 1)))"
      using lt step by simp
    moreover have "dots_loop i countRef cout = dots_loop (i + 1) countRef (stream_put cout ''.'')"
      using True by (subst dots_loop.simps) simp
    ultimately show ?thesis
      using 1 [OF True] by (simp add: stream_put_def replicate_append_same)
  next
    case False
    then have "\<not> sint i < sint countRef"
      by (simp add: word_sless_alt)
    moreover have "dots_loop i countRef cout = cout"
      using False by (subst dots_loop.simps) simp
    ultimately show ?thesis by simp
  qed
qed

lemma dots_loop_from_zero:
  "dots_loop 0 countRef cout = cout @ replicate (nat (sint countRef)) (Ch CHR ''.'')"
  by (simp add: dots_loop_eq)

lemma indicator_false: "PrintSilentStatusIndicator color False st = st"
  by (simp add: PrintSilentStatusIndicator_def split: prod.splits)

lemma indicator_true_plain:
  assumes "\<not> 100 <s countRef + 1"
  shows "PrintSilentStatusIndicator color True (countRef, cout) =
           (countRef + 1, cout @ indicator_line color (nat (sint (countRef + 1))))"
  using assms
  by (simp add: PrintSilentStatusIndicator_def dots_loop_from_zero indicator_line_def
      stream_put_def stream_flush_def map_replicate Let_def)

lemma clear_spaces: "''                      '' = replicate 22 CHR '' ''"
  by (simp add: numeral_eq_Suc)

lemma indicator_true_wrap:
  assumes "100 <s countRef + 1"
  shows "PrintSilentStatusIndicator color True (countRef, cout) =
           (1, cout @ map Ch (CHR 0x0D # ''                      '' @ [CHR 0x0D]) @ [Flush]
                 @ indicator_line color 1)"
  using assms
  by (simp add: PrintSilentStatusIndicator_def dots_loop_from_zero indicator_line_def
      stream_put_def stream_flush_def)

lemma sint_of_nat_small:
  "k < 2147483648 \<Longrightarrow> sint (of_nat k :: 32 word) = int k"
  by (simp add: signed_of_nat signed_take_bit_int_eq_self)

lemma indicator_calls_append:
  "indicator_calls color (bs @ cs) st = indicator_calls color cs (indicator_calls color bs st)"
  by (induction bs arbitrary: st) simp_all

lemma replicate_snoc_True: "replicate (Suc k) True = replicate k True @ [True]"
  by (simp add: replicate_append_same)

lemma indicator_run:
  "k \<le> 100 \<Longrightarrow>
   indicator_calls color (replicate k True) (0, cout) =
     (of_nat k, cout @ concat (map (indicator_line color) [1..<Suc k]))"
proof (induction k)
  case 0
  show ?case by simp
next
  case (Suc k)
  then have k: "k < 100" by simp
  then have kle: "k \<le> 100" by simp
  note ih = Suc.IH [OF kle]
  have s: "sint (of_nat k + 1 :: 32 word) = int k + 1"
    using sint_of_nat_small [of "Suc k"] k by (simp add: add.commute)
  then have no_wrap: "\<not> 100 <s (of_nat k + 1 :: 32 word)"
    using k by (simp add: word_sless_alt)
  have lines: "[1..<Suc (Suc k)] = [1..<Suc k] @ [Suc k]"
    by (rule upt_Suc_append) simp
  have "indicator_calls color (replicate (Suc k) True) (0, cout) =
          PrintSilentStatusIndicator color True
            (indicator_calls color (replicate k True) (0, cout))"
    by (simp only: replicate_snoc_True indicator_calls_append indicator_calls.simps)
  also have "\<dots> = PrintSilentStatusIndicator color True
            (of_nat k, cout @ concat (map (indicator_line color) [1..<Suc k]))"
    by (simp only: ih)
  also have "\<dots> = (of_nat k + 1,
      (cout @ concat (map (indicator_line color) [1..<Suc k])) @ indicator_line color (Suc k))"
    using indicator_true_plain [OF no_wrap] s by (simp add: nat_add_distrib)
  also have "\<dots> = (of_nat (Suc k),
      cout @ concat (map (indicator_line color) [1..<Suc (Suc k)]))"
    by (simp only: lines) simp
  finally show ?case .
qed

lemma indicator_after_hundred:
  "PrintSilentStatusIndicator color True (100, cout) =
     (1, cout @ map Ch (CHR 0x0D # ''                      '' @ [CHR 0x0D]) @ [Flush]
           @ indicator_line color 1)"
  by (rule indicator_true_wrap) simp

subsection \<open>A hundred calls and the wrap\<close>

text \<open>
  Claim C1. Starting from a counter cell holding 0, a run of \<open>k\<close> calls with flag true,
  for every \<open>k\<close> up to 100, leaves the counter at \<open>k\<close> and has written the frames with
  1, 2, ..., \<open>k\<close> dots in this order, each frame being a carriage return, the colour
  code, \<open>[INFO] \<close>, the dots, the reset code and a flush, without a newline. The 101st
  call with flag true writes the clearing sequence, then the frame with one dot, and
  leaves the counter at 1, not 101.
\<close>

theorem indicator_hundred_calls_then_wrap:
  "(\<forall>k\<le>100. indicator_calls color (replicate k True) (0, cout) =
       (of_nat k, cout @ concat (map (indicator_line color) [1..<Suc k])))
   \<and> indicator_calls color (replicate 101 True) (0, cout) =
       (1, cout @ concat (map (indicator_line color) [1..<101])
             @ map Ch (CHR 0x0D # ''                      '' @ [CHR 0x0D]) @ [Flush]
             @ indicator_line color 1)"
proof
  show "\<forall>k\<le>100. indicator_calls color (replicate k True) (0, cout) =
       (of_nat k, cout @ concat (map (indicator_line color) [1..<Suc k]))"
    using indicator_run by blast
next
  have "replicate (Suc 100) True = replicate 100 True @ [True]"
    by (rule replicate_snoc_True)
  then have split: "replicate 101 True = replicate 100 True @ [True]"
    by (simp only: eval_nat_numeral)
  have "indicator_calls color (replicate 101 True) (0, cout) =
      PrintSilentStatusIndicator color True
        (100, cout @ concat (map (indicator_line color) [1..<101]))"
    using indicator_run [of 100 color cout]
    by (simp only: split indicator_calls_append) simp
  then show "indicator_calls color (replicate 101 True) (0, cout) =
       (1, cout @ concat (map (indicator_line color) [1..<101])
             @ map Ch (CHR 0x0D # ''                      '' @ [CHR 0x0D]) @ [Flush]
             @ indicator_line color 1)"
    by (simp only: indicator_after_hundred append_assoc)
qed

theorem indicator_hundred_calls_then_wrap_witness:
  "indicator_calls GREEN (replicate 3 True) (0, []) =
     (3, indicator_line GREEN 1 @ indicator_line GREEN 2 @ indicator_line GREEN 3)"
  using indicator_hundred_calls_then_wrap [of GREEN "[]", THEN conjunct1, rule_format, of 3]
  by (simp add: upt_rec numeral_2_eq_2 numeral_3_eq_3)

subsection \<open>The clearing sequence\<close>

lemma indicator_line_dots:
  "length (filter (\<lambda>e. e = Ch CHR ''.'') (indicator_line color n)) = n"
  by (simp add: indicator_line_def GetColorCode_def)

text \<open>
  Claim C3. When the incremented counter exceeds 100 the indicator first writes a clearing
  sequence: a carriage return, spaces over the widest line it can have rendered (the
  7 characters of \<open>[INFO] \<close> and 100 dots, 107 columns), a second carriage return and a
  flush, and resets the counter to 1. The comment beside the statement says the same
  (the line of \<open>[INFO] \<close> and 100 dots is cleared). The code evaluated at the counter
  value 100: the carriage returns, the flush and the reset to 1 are there, but the string
  literal holds 22 spaces, 85 fewer than the 107 columns.
\<close>

theorem indicator_clear_sequence_short:
  "PrintSilentStatusIndicator GREEN True (100, []) =
     (1, Ch (CHR 0x0D) # replicate 22 (Ch CHR '' '') @ [Ch (CHR 0x0D), Flush]
           @ indicator_line GREEN 1)
   \<and> length (''[INFO] '' @ replicate 100 CHR ''.'') = 107"
  by (simp add: indicator_after_hundred clear_spaces)

subsection \<open>Calls with the flag false\<close>

text \<open>
  Claim C7. For every colour, every counter value and every stream, a call with flag
  false changes neither the counter nor the stream: nothing is written, and the counter
  is not reset.
\<close>

theorem indicator_false_noop: "PrintSilentStatusIndicator color False (countRef, cout) = (countRef, cout)"
  by (rule indicator_false)

subsection \<open>The counter stays within 0 and 100\<close>

text \<open>
  Claim C9. If the counter holds a value from 0 to 100 before a call, it holds a value
  from 0 to 100 after it, whatever the flag; after a call with flag true it is between
  1 and 100 and equals the number of dots among the events this call has written.
\<close>

theorem indicator_counter_invariant:
  assumes "0 \<le>s countRef" and "countRef \<le>s 100"
  shows "case PrintSilentStatusIndicator color isSilent (countRef, cout) of
           (countRef', cout') \<Rightarrow>
             0 \<le>s countRef' \<and> countRef' \<le>s 100 \<and>
             (isSilent \<longrightarrow>
                1 \<le>s countRef' \<and>
                length (filter (\<lambda>e. e = Ch CHR ''.'') (drop (length cout) cout'))
                  = nat (sint countRef'))"
proof (cases isSilent)
  case False
  then show ?thesis using assms by (simp add: indicator_false)
next
  case True
  have lo: "0 \<le> sint countRef" and hi: "sint countRef \<le> 100"
    using assms by (simp_all add: word_sle_eq)
  have s: "sint (countRef + 1) = sint countRef + 1"
    using hi by (intro sint_succ) simp
  show ?thesis
  proof (cases "100 <s countRef + 1")
    case wrap: True
    show ?thesis
      using True indicator_true_wrap [OF wrap, of color cout]
      by (simp add: word_sle_eq indicator_line_dots)
  next
    case plain: False
    then have "sint countRef + 1 \<le> 100"
      using s by (simp add: word_sless_alt)
    then show ?thesis
      using True indicator_true_plain [OF plain, of color cout] s lo
      by (simp add: word_sle_eq indicator_line_dots)
  qed
qed

theorem indicator_counter_invariant_witness:
  "(0::32 word) \<le>s 100 \<and> (100::32 word) \<le>s 100 \<and>
   fst (PrintSilentStatusIndicator RED True (100, [])) = 1 \<and>
   length (filter (\<lambda>e. e = Ch CHR ''.'')
         (snd (PrintSilentStatusIndicator RED True (100, [])))) = 1"
  using indicator_counter_invariant [where countRef = 100 and color = RED and isSilent = True and cout = "[]"]
    indicator_after_hundred [of RED "[]"]
  by (simp add: word_sle_eq)

section \<open>Properties of the coloured line emission\<close>

lemma line_shape:
  "stream_endl (stream_put (stream_put (stream_put (stream_put (stream_put
     (stream_put cout color_code) ''['') type) ''] '') payload) reset_code) =
   cout @ map Ch (color_code @ ''['' @ type @ ''] '' @ payload @ reset_code @ [CHR 0x0A]) @ [Flush]"
  by (simp add: stream_endl_def stream_put_def stream_flush_def)

text \<open>
  Claim C2. For every colour, label and string payload, \<open>PrintColoredMessage\<close> appends to
  standard output the colour's escape code, the label between brackets, a space, the
  payload, the reset code \<open>ESC[0m\<close> and a newline (\<open>std::endl\<close>, which also flushes);
  the seven colours have the codes \<open>ESC[31m\<close> to \<open>ESC[37m\<close> in the order red, green,
  yellow, blue, magenta, cyan, white.
\<close>

theorem colored_line_shape:
  "PrintColoredMessage_string color type message cout =
     cout @ map Ch (GetColorCode color @ ''['' @ type @ ''] '' @ message
                      @ CHR 0x1B # ''[0m'' @ [CHR 0x0A]) @ [Flush]
   \<and> GetColorCode RED = CHR 0x1B # ''[31m''
   \<and> GetColorCode GREEN = CHR 0x1B # ''[32m''
   \<and> GetColorCode YELLOW = CHR 0x1B # ''[33m''
   \<and> GetColorCode BLUE = CHR 0x1B # ''[34m''
   \<and> GetColorCode MAGENTA = CHR 0x1B # ''[35m''
   \<and> GetColorCode CYAN = CHR 0x1B # ''[36m''
   \<and> GetColorCode WHITE = CHR 0x1B # ''[37m''"
  by (simp add: PrintColoredMessage_string_def line_shape GetColorCode_def PrintColor_defs)

lemma string_find_found_iff: "(string_find s c \<noteq> None) = (c \<in> set s)"
  by (induction s) auto

text \<open>
  Claim C6. The \<open>const char*\<close> and the \<open>std::string\<close> overload write every payload
  unchanged inside the usual line shape, whether it contains a percent sign or not: the
  test for a percent sign, which finds one exactly when the payload contains one, selects
  between two branches that write the same line. So a payload with a percent sign is
  printed verbatim, and its line has the shape of the line of a payload without one.
\<close>

theorem percent_payload_verbatim:
  "PrintColoredMessage_cstr color type message cout =
     cout @ map Ch (GetColorCode color @ ''['' @ type @ ''] '' @ message
                      @ CHR 0x1B # ''[0m'' @ [CHR 0x0A]) @ [Flush]
   \<and> PrintColoredMessage_string color type message cout =
     cout @ map Ch (GetColorCode color @ ''['' @ type @ ''] '' @ message
                      @ CHR 0x1B # ''[0m'' @ [CHR 0x0A]) @ [Flush]
   \<and> (string_find message CHR ''%'' \<noteq> None) = (CHR ''%'' \<in> set message)"
proof -
  have lines: "PrintColoredMessage_cstr color type message cout =
       cout @ map Ch (GetColorCode color @ ''['' @ type @ ''] '' @ message
                        @ CHR 0x1B # ''[0m'' @ [CHR 0x0A]) @ [Flush]
     \<and> PrintColoredMessage_string color type message cout =
       cout @ map Ch (GetColorCode color @ ''['' @ type @ ''] '' @ message
                        @ CHR 0x1B # ''[0m'' @ [CHR 0x0A]) @ [Flush]"
    by (simp add: PrintColoredMessage_cstr_def PrintColoredMessage_string_def line_shape)
  show ?thesis
    using lines string_find_found_iff [of message "CHR ''%''"] by blast
qed

theorem percent_payload_verbatim_witness:
  "CHR ''%'' \<in> set ''100% done'' \<and> CHR ''%'' \<notin> set ''Hello World'' \<and>
   PrintColoredMessage_cstr YELLOW ''INFO'' ''100% done'' [] =
     map Ch (CHR 0x1B # ''[33m[INFO] 100% done'' @ CHR 0x1B # ''[0m'' @ [CHR 0x0A]) @ [Flush]
   \<and> PrintColoredMessage_string YELLOW ''INFO'' ''100% done'' [] =
     map Ch (CHR 0x1B # ''[33m[INFO] 100% done'' @ CHR 0x1B # ''[0m'' @ [CHR 0x0A]) @ [Flush]
   \<and> PrintColoredMessage_cstr YELLOW ''INFO'' ''Hello World'' [] =
     map Ch (CHR 0x1B # ''[33m[INFO] Hello World'' @ CHR 0x1B # ''[0m'' @ [CHR 0x0A]) @ [Flush]
   \<and> PrintColoredMessage_string YELLOW ''INFO'' ''Hello World'' [] =
     map Ch (CHR 0x1B # ''[33m[INFO] Hello World'' @ CHR 0x1B # ''[0m'' @ [CHR 0x0A]) @ [Flush]"
  using percent_payload_verbatim [of YELLOW "''INFO''" "''100% done''" "[]"]
    percent_payload_verbatim [of YELLOW "''INFO''" "''Hello World''" "[]"]
  by (simp add: GetColorCode_def PrintColor_defs)

text \<open>
  Claim C8. The \<open>bool\<close> overload writes the word \<open>true\<close> for true and the word \<open>false\<close>
  for false, in the usual line shape, and never the digits 1 or 0 in their place.
\<close>

theorem bool_payload_words:
  "PrintColoredMessage_bool color type True cout =
     cout @ map Ch (GetColorCode color @ ''['' @ type @ ''] '' @ ''true''
                      @ CHR 0x1B # ''[0m'' @ [CHR 0x0A]) @ [Flush]
   \<and> PrintColoredMessage_bool color type False cout =
     cout @ map Ch (GetColorCode color @ ''['' @ type @ ''] '' @ ''false''
                      @ CHR 0x1B # ''[0m'' @ [CHR 0x0A]) @ [Flush]
   \<and> PrintColoredMessage_bool color type True cout \<noteq>
     cout @ map Ch (GetColorCode color @ ''['' @ type @ ''] '' @ ''1''
                      @ CHR 0x1B # ''[0m'' @ [CHR 0x0A]) @ [Flush]
   \<and> PrintColoredMessage_bool color type False cout \<noteq>
     cout @ map Ch (GetColorCode color @ ''['' @ type @ ''] '' @ ''0''
                      @ CHR 0x1B # ''[0m'' @ [CHR 0x0A]) @ [Flush]"
  by (simp add: PrintColoredMessage_bool_def line_shape)

text \<open>
  Claim C10. \<open>GetColorCode\<close> returns a result for every value of \<open>PrintColor\<close>: the
  seven enumerators have seven distinct colour codes, every other value gets the reset
  code from the \<open>default\<close> branch, no enumerator gets the reset code, and the result is
  always one of these eight escape sequences.
\<close>

theorem GetColorCode_total:
  "distinct (map GetColorCode [RED, GREEN, YELLOW, BLUE, MAGENTA, CYAN, WHITE])
   \<and> map GetColorCode [RED, GREEN, YELLOW, BLUE, MAGENTA, CYAN, WHITE] =
        [CHR 0x1B # ''[31m'', CHR 0x1B # ''[32m'', CHR 0x1B # ''[33m'', CHR 0x1B # ''[34m'',
         CHR 0x1B # ''[35m'', CHR 0x1B # ''[36m'', CHR 0x1B # ''[37m'']
   \<and> (color \<notin> set [RED, GREEN, YELLOW, BLUE, MAGENTA, CYAN, WHITE]
          \<longrightarrow> GetColorCode color = CHR 0x1B # ''[0m'')
   \<and> (color \<in> set [RED, GREEN, YELLOW, BLUE, MAGENTA, CYAN, WHITE]
          \<longrightarrow> GetColorCode color \<noteq> CHR 0x1B # ''[0m'')
   \<and> GetColorCode color \<in> set
        [CHR 0x1B # ''[31m'', CHR 0x1B # ''[32m'', CHR 0x1B # ''[33m'', CHR 0x1B # ''[34m'',
         CHR 0x1B # ''[35m'', CHR 0x1B # ''[36m'', CHR 0x1B # ''[37m'', CHR 0x1B # ''[0m'']"
  by (simp add: GetColorCode_def PrintColor_defs)

theorem GetColorCode_total_witness:
  "PrintColor 42 \<notin> set [RED, GREEN, YELLOW, BLUE, MAGENTA, CYAN, WHITE]
   \<and> GetColorCode (PrintColor 42) = CHR 0x1B # ''[0m''
   \<and> CYAN \<in> set [RED, GREEN, YELLOW, BLUE, MAGENTA, CYAN, WHITE]
   \<and> GetColorCode CYAN \<noteq> CHR 0x1B # ''[0m''"
  using GetColorCode_total [of "PrintColor 42"] GetColorCode_total [of CYAN]
  by (simp add: PrintColor_defs)

section \<open>Properties of the formatted emission\<close>

subsection \<open>The scanner of \<open>FormatString\<close>\<close>

lemma flag_not_type: "is_flag_char c \<Longrightarrow> \<not> is_type_char c"
  by (auto simp: is_flag_char_def is_type_char_def)

lemma string_find_first:
  "c \<notin> set pre \<Longrightarrow> string_find (pre @ c # xs) c = Some (length pre)"
  by (induction pre) auto

lemma scan_specifier_stops:
  assumes "\<forall>c\<in>set mid. is_flag_char c"
      and "rest = [] \<or> (\<not> is_type_char (hd rest) \<and> \<not> is_flag_char (hd rest))"
  shows "scan_specifier (p @ mid @ rest) (length p) = (False, length p + length mid)"
  using assms
proof (induction mid arbitrary: p)
  case Nil
  show ?case
  proof (cases rest)
    case Nil
    then show ?thesis
      by (subst scan_specifier.simps) simp
  next
    case (Cons r rs)
    with Nil.prems have "\<not> is_type_char r" "\<not> is_flag_char r"
      by simp_all
    with Cons show ?thesis
      by (subst scan_specifier.simps) simp
  qed
next
  case (Cons m ms)
  then have m: "is_flag_char m" "\<not> is_type_char m"
    by (simp_all add: flag_not_type)
  have "scan_specifier (p @ (m # ms) @ rest) (length p) =
          scan_specifier ((p @ [m]) @ ms @ rest) (length (p @ [m]))"
    using m by (subst scan_specifier.simps) simp
  also have "\<dots> = (False, length (p @ [m]) + length ms)"
    using Cons.prems by (intro Cons.IH) simp_all
  finally show ?case by simp
qed

text \<open>
  The formatted emission prints what \<open>FormatPrintf\<close> returns, so on the fragment it
  follows \<open>printf\<close>: the format \<open>%d%%\<close> with the argument 85 gives \<open>85%\<close>.
\<close>

lemma formatted_percent_example:
  "FormatPrintf vsnprintf_frag ''%d%%'' [ArgInt 85] = ''85%''"
  by code_simp

text \<open>
  Claim C4, as stated: in the formatted emission path, a percent sign behind which the
  scanner meets an invalid character before any conversion type character is replaced,
  alone, by the default rendering of the argument. The template overload of
  \<open>PrintColoredMessage\<close> does not run the scanner: it calls \<open>FormatPrintf\<close>. For the format
  \<open>100%% of %d\<close> and the argument 5 the scanner stops at the second percent sign without
  a conversion type character, and replacing the first percent sign would give the
  payload \<open>1005% of %d\<close>; the line written has the payload \<open>100% of 5\<close>.
\<close>

theorem formatted_emission_no_fallback:
  "string_find ''100%% of %d'' CHR ''%'' = Some 3
   \<and> scan_specifier ''100%% of %d'' (3 + 1) = (False, 4)
   \<and> string_replace ''100%% of %d'' 3 1 (stream_render (ArgInt 5)) = ''1005% of %d''
   \<and> PrintColoredMessage_format vsnprintf_frag YELLOW ''INFO'' ''100%% of %d'' (ArgInt 5) [] [] =
        map Ch (CHR 0x1B # ''[33m[INFO] 100% of 5'' @ CHR 0x1B # ''[0m'' @ [CHR 0x0A]) @ [Flush]
   \<and> PrintColoredMessage_format vsnprintf_frag YELLOW ''INFO'' ''100%% of %d'' (ArgInt 5) [] [] \<noteq>
        map Ch (CHR 0x1B # ''[33m[INFO] 1005% of %d'' @ CHR 0x1B # ''[0m'' @ [CHR 0x0A]) @ [Flush]"
  by code_simp

text \<open>
  Claim C4, amended. The fallback is the behaviour of the private helper \<open>FormatString\<close>,
  which the emission path does not call. When the first percent sign of the format is
  followed by flag characters, digits and dots only, and then by the end of the string
  or by a character that is neither a conversion type character nor one of those,
  \<open>FormatString\<close> replaces just that percent sign by the rendering of the first argument
  and goes on with the remaining arguments on the result. The formatted emission, for
  the same format, writes the usual line around what \<open>FormatPrintf\<close> returns.
\<close>

theorem FormatString_percent_fallback:
  assumes "CHR ''%'' \<notin> set pre"
      and "\<forall>c\<in>set mid. is_flag_char c"
      and "rest = [] \<or> (\<not> is_type_char (hd rest) \<and> \<not> is_flag_char (hd rest))"
  shows "FormatString render (pre @ CHR ''%'' # mid @ rest) (first # args) =
           FormatString render (pre @ render first @ mid @ rest) args
         \<and> PrintColoredMessage_format vsnprintf color type (pre @ CHR ''%'' # mid @ rest) first args cout =
           cout @ map Ch (GetColorCode color @ ''['' @ type @ ''] ''
                    @ FormatPrintf vsnprintf (pre @ CHR ''%'' # mid @ rest) (first # args)
                    @ CHR 0x1B # ''[0m'' @ [CHR 0x0A]) @ [Flush]"
proof
  have pos: "string_find (pre @ CHR ''%'' # mid @ rest) CHR ''%'' = Some (length pre)"
    using assms(1) by (rule string_find_first)
  have "scan_specifier ((pre @ [CHR ''%'']) @ mid @ rest) (length (pre @ [CHR ''%''])) =
          (False, length (pre @ [CHR ''%'']) + length mid)"
    using assms(2,3) by (rule scan_specifier_stops)
  then have scan: "scan_specifier (pre @ CHR ''%'' # mid @ rest) (Suc (length pre)) =
          (False, Suc (length pre) + length mid)"
    by simp
  show "FormatString render (pre @ CHR ''%'' # mid @ rest) (first # args) =
           FormatString render (pre @ render first @ mid @ rest) args"
    by (simp add: pos scan string_replace_def Let_def)
next
  show "PrintColoredMessage_format vsnprintf color type (pre @ CHR ''%'' # mid @ rest) first args cout =
           cout @ map Ch (GetColorCode color @ ''['' @ type @ ''] ''
                    @ FormatPrintf vsnprintf (pre @ CHR ''%'' # mid @ rest) (first # args)
                    @ CHR 0x1B # ''[0m'' @ [CHR 0x0A]) @ [Flush]"
    by (simp add: PrintColoredMessage_format_def line_shape)
qed

theorem FormatString_percent_fallback_witness:
  "CHR ''%'' \<notin> set ''count: '' \<and>
   is_flag_char CHR ''5'' \<and> is_flag_char CHR ''.'' \<and> is_flag_char CHR ''2'' \<and>
   \<not> is_type_char (hd ''ld items'') \<and> \<not> is_flag_char (hd ''ld items'') \<and>
   FormatString stream_render ''count: %5.2ld items'' [ArgInt 42] = ''count: 425.2ld items''"
  using FormatString_percent_fallback [of "''count: ''" "''5.2''" "''ld items''" stream_render "ArgInt 42" "[]"]
  by (simp add: is_flag_char_def is_type_char_def dec_int_def dec_nat.simps)

subsection \<open>Formatting failure\<close>

text \<open>
  Claim C5. Whenever the first call of \<open>vsnprintf\<close> returns a negative size,
  \<open>FormatPrintf\<close> returns the empty string and the formatted emission still writes the
  line: colour code, label between brackets, a space, no payload, the reset code and
  the newline. The model is a total function returning the stream: there is no throwing
  or aborting branch on this path.
\<close>

theorem formatting_failure_empty_payload:
  assumes "fst (vsnprintf 0 format (first # args)) < 0"
  shows "FormatPrintf vsnprintf format (first # args) = []
         \<and> PrintColoredMessage_format vsnprintf color type format first args cout =
           cout @ map Ch (GetColorCode color @ ''['' @ type @ ''] ''
                            @ CHR 0x1B # ''[0m'' @ [CHR 0x0A]) @ [Flush]"
  using assms
  by (simp add: PrintColoredMessage_format_def FormatPrintf_def line_shape)

theorem formatting_failure_empty_payload_witness:
  "fst (vsnprintf_frag 0 ''done 100%'' [ArgInt 1]) < 0 \<and>
   FormatPrintf vsnprintf_frag ''done 100%'' [ArgInt 1] = [] \<and>
   PrintColoredMessage_format vsnprintf_frag GREEN ''OK'' ''done 100%'' (ArgInt 1) [] [] =
     map Ch (CHR 0x1B # ''[32m[OK] '' @ CHR 0x1B # ''[0m'' @ [CHR 0x0A]) @ [Flush]"
proof -
  have neg: "fst (vsnprintf_frag 0 ''done 100%'' [ArgInt 1]) < 0"
    by (simp add: vsnprintf_frag_def)
  show ?thesis
    using neg formatting_failure_empty_payload [where vsnprintf = vsnprintf_frag and format = "''done 100%''"
        and first = "ArgInt 1" and args = "[]" and color = GREEN and type = "''OK''"
        and cout = "[]", OF neg]
    by (simp add: GetColorCode_def PrintColor_defs)
qed

end
